theory Spec2Isabelle
  imports Complex_Main "HOL-Library.Char_ord" "HOL-Library.List_Lexorder"
    "HOL-Library.Product_Lexorder"
begin

section \<open>Numbers, errors and tables\<close>

text \<open>
  The forecasting engine of \<^verbatim>\<open>notebooks/forecast-script.py\<close> computes on numpy
  \<^verbatim>\<open>float64\<close> values. They are modelled as exact reals extended by the three special
  values the script can produce or meet: positive and negative infinity and NaN.
  Rounding error of binary floating point is not modelled.
\<close>

datatype float64 = Fin real | PInf | NInf | NaN

datatype error = KeyError | ValueError | TypeError

text \<open>Python's \<^verbatim>\<open>round(x)\<close> on a float: the nearest integer, ties to the even one.\<close>

definition py_round :: "real \<Rightarrow> int" where
  "py_round x =
     (let f = \<lfloor>x\<rfloor>; d = x - of_int f
      in if d < 1 / 2 then f
         else if 1 / 2 < d then f + 1
         else if even f then f else f + 1)"

text \<open>\<^verbatim>\<open>round(x, n)\<close> and the \<^verbatim>\<open>.round(n)\<close> of a column: infinity and NaN stay.\<close>

definition round_to :: "nat \<Rightarrow> real \<Rightarrow> real" where
  "round_to n x = of_int (py_round (x * 10 ^ n)) / 10 ^ n"

fun np_round :: "nat \<Rightarrow> float64 \<Rightarrow> float64" where
  "np_round n (Fin x) = Fin (round_to n x)"
| "np_round n v = v"

text \<open>
  Division of an integer column by a non-negative integer column, as pandas does it:
  no exception, a zero divisor gives infinity with the sign of the dividend, and
  \<^verbatim>\<open>0 / 0\<close> gives NaN.
\<close>

definition np_div :: "int \<Rightarrow> int \<Rightarrow> float64" where
  "np_div a b =
     (if b = 0 then (if 0 < a then PInf else if a < 0 then NInf else NaN)
      else Fin (real_of_int a / real_of_int b))"

fun np_times :: "float64 \<Rightarrow> real \<Rightarrow> float64" where
  "np_times (Fin x) c = Fin (x * c)"
| "np_times v c = v"

text \<open>Comparisons of a column with a constant: every comparison with NaN is false.\<close>

fun np_le :: "float64 \<Rightarrow> real \<Rightarrow> bool" where
  "np_le (Fin x) c = (x \<le> c)"
| "np_le NInf c = True"
| "np_le PInf c = False"
| "np_le NaN c = False"

fun np_ge :: "float64 \<Rightarrow> real \<Rightarrow> bool" where
  "np_ge (Fin x) c = (c \<le> x)"
| "np_ge PInf c = True"
| "np_ge NInf c = False"
| "np_ge NaN c = False"

fun np_gt :: "float64 \<Rightarrow> real \<Rightarrow> bool" where
  "np_gt (Fin x) c = (c < x)"
| "np_gt PInf c = True"
| "np_gt NInf c = False"
| "np_gt NaN c = False"

text \<open>
  A historical dataframe: the \<^verbatim>\<open>Year\<close> column and the value columns by name, a
  missing value (null) being \<open>None\<close>. Every column of a dataframe is as long as its
  \<^verbatim>\<open>Year\<close> column.
\<close>

record dataframe =
  df_Year :: "int list"
  df_columns :: "(string \<times> real option list) list"

text \<open>
  One row of the forecast table. \<open>CV\<close> and \<open>R2\<close> are \<open>None\<close> when the column is
  left out (\<^verbatim>\<open>include_cv\<close>, \<^verbatim>\<open>include_r2\<close>); \<open>MAPE\<close> is \<open>None\<close> for Python's
  \<^verbatim>\<open>None\<close>.
\<close>

record forecast_row =
  Year :: int
  Category :: string
  Metric :: string
  Forecast :: int
  Uncertainty :: int
  CV :: "float64 option"
  R2 :: "float64 option"
  MAPE :: "real option"

record reliability_row = forecast_row +
  Uncertainty_pct :: float64
  Reliability :: string

section \<open>The trend model\<close>

definition mean :: "real list \<Rightarrow> real" where
  "mean xs = sum_list xs / real (length xs)"

text \<open>\<^verbatim>\<open>np.std\<close>: the population standard deviation.\<close>

definition std :: "real list \<Rightarrow> real" where
  "std xs = sqrt (mean (map (\<lambda>v. (v - mean xs)\<^sup>2) xs))"

text \<open>
  \<^verbatim>\<open>sklearn.linear_model.LinearRegression\<close> with one predictor: ordinary least squares
  on the centred data. The library rejects an empty sample with \<^verbatim>\<open>ValueError\<close> and
  accepts a single one; its solver returns the minimum-norm solution, which is slope 0
  when all years coincide.
\<close>

record linear_model =
  coef :: real
  intercept :: real

definition fit :: "real list \<Rightarrow> real list \<Rightarrow> error + linear_model" where
  "fit X y =
     (if X = [] \<or> length X \<noteq> length y then Inl ValueError
      else
        let X_offset = mean X;
            y_offset = mean y;
            sxx = sum_list (map (\<lambda>x. (x - X_offset)\<^sup>2) X);
            sxy = sum_list (map (\<lambda>(x, v). (x - X_offset) * (v - y_offset)) (zip X y));
            slope = (if sxx = 0 then 0 else sxy / sxx)
        in Inr \<lparr>coef = slope, intercept = y_offset - slope * X_offset\<rparr>)"

definition predict :: "linear_model \<Rightarrow> real \<Rightarrow> real" where
  "predict m x = coef m * x + intercept m"

text \<open>
  \<^verbatim>\<open>model.score\<close>: the coefficient of determination. The library returns NaN for
  fewer than two samples and, for a constant series, 1 when the residuals vanish and 0
  otherwise.
\<close>

definition score :: "linear_model \<Rightarrow> real list \<Rightarrow> real list \<Rightarrow> float64" where
  "score m X y =
     (let y_pred = map (predict m) X;
          ss_res = sum_list (map (\<lambda>(a, p). (a - p)\<^sup>2) (zip y y_pred));
          ss_tot = sum_list (map (\<lambda>a. (a - mean y)\<^sup>2) y)
      in if length y < 2 then NaN
         else if ss_tot = 0 then (if ss_res = 0 then Fin 1 else Fin 0)
         else Fin (1 - ss_res / ss_tot))"

section \<open>The forecast table builder\<close>

text \<open>
  Lines 81--82: \<^verbatim>\<open>max([df['Year'].max() for df in historical_dfs.values()])\<close>.
  The maximum of an empty column is NaN (\<open>None\<close> here); Python's \<^verbatim>\<open>max\<close> keeps its
  running result unless the next item compares greater, and fails on an empty list.
\<close>

fun series_max :: "int list \<Rightarrow> int option" where
  "series_max [] = None"
| "series_max (x # xs) = (case series_max xs of None \<Rightarrow> Some x | Some m \<Rightarrow> Some (max x m))"

fun py_greater :: "int option \<Rightarrow> int option \<Rightarrow> bool" where
  "py_greater (Some a) (Some b) = (b < a)"
| "py_greater _ _ = False"

fun py_max_from :: "int option \<Rightarrow> int option list \<Rightarrow> int option" where
  "py_max_from res [] = res"
| "py_max_from res (v # vs) = py_max_from (if py_greater v res then v else res) vs"

text \<open>
  Line 85 builds \<^verbatim>\<open>range(last_year + 1, ...)\<close>, which raises \<^verbatim>\<open>TypeError\<close> when
  \<^verbatim>\<open>last_year\<close> is NaN.
\<close>

definition last_year_of :: "(string \<times> dataframe) list \<Rightarrow> error + int" where
  "last_year_of historical_dfs =
     (case map (\<lambda>(name, df). series_max (df_Year df)) historical_dfs of
        [] \<Rightarrow> Inl ValueError
      | v # vs \<Rightarrow> (case py_max_from v vs of None \<Rightarrow> Inl TypeError | Some y \<Rightarrow> Inr y))"

text \<open>Lines 137--150: the uncertainty of one forecast value.\<close>

definition bounded_uncertainty :: "real \<Rightarrow> nat \<Rightarrow> real \<Rightarrow> real" where
  "bounded_uncertainty mae years_out forecast_value =
     (let uncertainty_factor = sqrt (real years_out);
          uncertainty = mae * uncertainty_factor;
          max_uncertainty_pct = 50;
          max_uncertainty = \<bar>forecast_value\<bar> * (max_uncertainty_pct / 100);
          uncertainty = min uncertainty max_uncertainty;
          min_uncertainty = 50
      in if \<bar>forecast_value\<bar> < 1000 then max uncertainty min_uncertainty
         else uncertainty)"

text \<open>Lines 99--127: the model of one column and its error statistics.\<close>

record column_stats =
  model :: linear_model
  mae :: real
  cv :: float64
  r2 :: float64
  mape :: "real option"

definition stats_of :: "real list \<Rightarrow> real list \<Rightarrow> error + column_stats" where
  "stats_of X y =
     (case fit X y of
        Inl e \<Rightarrow> Inl e
      | Inr m \<Rightarrow>
          let y_pred = map (predict m) X;
              absolute_deviations = map (\<lambda>(a, p). \<bar>a - p\<bar>) (zip y y_pred);
              mean_value = mean y;
              valid = filter (\<lambda>(a, p). a \<noteq> 0) (zip y y_pred)
          in Inr \<lparr>model = m,
                  mae = mean absolute_deviations,
                  cv = (if mean_value \<noteq> 0 then Fin (std y / mean_value * 100) else PInf),
                  r2 = score m X y,
                  mape = (if 0 < length valid
                          then Some (mean (map (\<lambda>(a, p). \<bar>(a - p) / a\<bar>) valid) * 100)
                          else None)\<rparr>)"

text \<open>Lines 130--171: the row of forecast year \<open>year\<close>, the \<open>i\<close>-th of the range.\<close>

definition result_row ::
  "bool \<Rightarrow> bool \<Rightarrow> string \<Rightarrow> string \<Rightarrow> column_stats \<Rightarrow> nat \<Rightarrow> int \<Rightarrow> forecast_row" where
  "result_row include_cv include_r2 category column st i year =
     (let years_out = i + 1;
          forecast_value = predict (model st) (real_of_int year);
          uncertainty = bounded_uncertainty (mae st) years_out forecast_value
      in \<lparr>Year = year,
          Category = category,
          Metric = column,
          Forecast = py_round forecast_value,
          Uncertainty = py_round uncertainty,
          CV = (if include_cv then Some (np_round 1 (cv st)) else None),
          R2 = (if include_r2 then Some (np_round 3 (r2 st)) else None),
          MAPE = map_option (round_to 1) (mape st)\<rparr>)"

text \<open>
  \<^verbatim>\<open>df[column]\<close>: the \<^verbatim>\<open>Year\<close> column itself or a value column; \<open>None\<close> when the
  dataframe has no such column.
\<close>

definition df_column :: "dataframe \<Rightarrow> string \<Rightarrow> real option list option" where
  "df_column df column =
     (if column = ''Year'' then Some (map (\<lambda>x. Some (real_of_int x)) (df_Year df))
      else map_of (df_columns df) column)"

text \<open>
  Lines 94--171: one requested column. A column that the dataframe does not have
  raises \<^verbatim>\<open>KeyError\<close>; a column with a missing value is skipped.
\<close>

definition column_rows ::
  "int list \<Rightarrow> bool \<Rightarrow> bool \<Rightarrow> string \<Rightarrow> dataframe \<Rightarrow> string \<Rightarrow> error + forecast_row list" where
  "column_rows forecast_years include_cv include_r2 category df column =
     (case df_column df column of
        None \<Rightarrow> Inl KeyError
      | Some col \<Rightarrow>
          if None \<in> set col then Inr []
          else
            (case stats_of (map real_of_int (df_Year df)) (map the col) of
               Inl e \<Rightarrow> Inl e
             | Inr st \<Rightarrow>
                 Inr (map (\<lambda>(i, year). result_row include_cv include_r2 category column st i year)
                        (enumerate 0 forecast_years))))"

fun columns_rows ::
  "int list \<Rightarrow> bool \<Rightarrow> bool \<Rightarrow> string \<Rightarrow> dataframe \<Rightarrow> string list \<Rightarrow> error + forecast_row list" where
  "columns_rows forecast_years include_cv include_r2 category df [] = Inr []"
| "columns_rows forecast_years include_cv include_r2 category df (column # rest) =
     (case column_rows forecast_years include_cv include_r2 category df column of
        Inl e \<Rightarrow> Inl e
      | Inr rows \<Rightarrow>
          (case columns_rows forecast_years include_cv include_r2 category df rest of
             Inl e \<Rightarrow> Inl e
           | Inr others \<Rightarrow> Inr (rows @ others)))"

text \<open>Lines 91--92: each dataset; a category without an entry in \<^verbatim>\<open>target_columns\<close> raises.\<close>

fun datasets_rows ::
  "int list \<Rightarrow> bool \<Rightarrow> bool \<Rightarrow> (string \<times> string list) list \<Rightarrow> (string \<times> dataframe) list
     \<Rightarrow> error + forecast_row list" where
  "datasets_rows forecast_years include_cv include_r2 target_columns [] = Inr []"
| "datasets_rows forecast_years include_cv include_r2 target_columns ((category, df) # rest) =
     (case map_of target_columns category of
        None \<Rightarrow> Inl KeyError
      | Some columns \<Rightarrow>
          (case columns_rows forecast_years include_cv include_r2 category df columns of
             Inl e \<Rightarrow> Inl e
           | Inr rows \<Rightarrow>
               (case datasets_rows forecast_years include_cv include_r2 target_columns rest of
                  Inl e \<Rightarrow> Inl e
                | Inr others \<Rightarrow> Inr (rows @ others))))"

text \<open>
  Lines 81--177. \<^verbatim>\<open>range(last_year + 1, last_year + years_to_forecast + 1)\<close> is the
  interval \<open>[last_year + 1 .. last_year + years_to_forecast]\<close>. A table without rows has
  no columns, so sorting it by \<^verbatim>\<open>Year\<close> raises \<^verbatim>\<open>KeyError\<close>.
\<close>

definition sort_table :: "forecast_row list \<Rightarrow> forecast_row list" where
  "sort_table rows = sort_key (\<lambda>r. (Year r, Category r, Metric r)) rows"

definition generate_forecast_table ::
  "(string \<times> dataframe) list \<Rightarrow> (string \<times> string list) list \<Rightarrow> int \<Rightarrow> bool \<Rightarrow> bool
     \<Rightarrow> error + forecast_row list" where
  "generate_forecast_table historical_dfs target_columns years_to_forecast include_cv include_r2 =
     (case last_year_of historical_dfs of
        Inl e \<Rightarrow> Inl e
      | Inr last_year \<Rightarrow>
          let forecast_years = [last_year + 1 .. last_year + years_to_forecast]
          in (case datasets_rows forecast_years include_cv include_r2 target_columns historical_dfs of
                Inl e \<Rightarrow> Inl e
              | Inr results \<Rightarrow>
                  if results = [] then Inl KeyError else Inr (sort_table results)))"

section \<open>The reliability classifier\<close>

text \<open>\<^verbatim>\<open>np.select\<close>: the value of the first condition that holds, else the default.\<close>

fun np_select :: "(bool \<times> 'a) list \<Rightarrow> 'a \<Rightarrow> 'a" where
  "np_select [] d = d"
| "np_select ((c, v) # rest) d = (if c then v else np_select rest d)"

text \<open>Lines 201--217, for one row: the tier of an uncertainty percentage and an R-squared.\<close>

definition reliability_of :: "float64 \<Rightarrow> float64 \<Rightarrow> string" where
  "reliability_of pct rsq =
     np_select
       [(np_le pct 10 \<and> np_ge rsq (9 / 10), ''High Reliability''),
        (np_le pct 25 \<and> np_ge rsq (7 / 10), ''Good Reliability''),
        (np_le pct 40 \<and> np_ge rsq (5 / 10), ''Moderate Reliability''),
        (np_le pct 60, ''Low Reliability''),
        (np_gt pct 60, ''Very Low Reliability'')]
       ''Unknown''"

text \<open>Line 198: the uncertainty as a percentage of the absolute forecast.\<close>

definition uncertainty_pct_of :: "forecast_row \<Rightarrow> float64" where
  "uncertainty_pct_of r = np_times (np_div (Uncertainty r) \<bar>Forecast r\<bar>) 100"

text \<open>
  Lines 195--222 for one row whose R-squared is \<open>rsq\<close>: the tier is chosen from the
  unrounded percentage, which is rounded to one decimal afterwards.
\<close>

definition assess_row :: "forecast_row \<Rightarrow> float64 \<Rightarrow> reliability_row" where
  "assess_row r rsq =
     \<lparr>Year = Year r, Category = Category r, Metric = Metric r, Forecast = Forecast r,
      Uncertainty = Uncertainty r, CV = CV r, R2 = R2 r, MAPE = MAPE r,
      Uncertainty_pct = np_round 1 (uncertainty_pct_of r),
      Reliability = reliability_of (uncertainty_pct_of r) rsq\<rparr>"

text \<open>A table built without the R-squared column raises \<^verbatim>\<open>KeyError\<close> at line 202.\<close>

fun assess_forecast_reliability :: "forecast_row list \<Rightarrow> error + reliability_row list" where
  "assess_forecast_reliability [] = Inr []"
| "assess_forecast_reliability (r # rest) =
     (case R2 r of
        None \<Rightarrow> Inl KeyError
      | Some rsq \<Rightarrow>
          (case assess_forecast_reliability rest of
             Inl e \<Rightarrow> Inl e
           | Inr others \<Rightarrow> Inr (assess_row r rsq # others)))"

section \<open>Notions used to state the properties\<close>

text \<open>
  The pair \<open>(category, column)\<close> is forecast from the years \<open>X\<close> and the values
  \<open>y\<close> with the statistics \<open>st\<close>: the category is a dataset of the run, the column is
  requested for it, has no missing value, and its model was fitted.
\<close>

definition fitted_pair ::
  "(string \<times> dataframe) list \<Rightarrow> (string \<times> string list) list \<Rightarrow> string \<Rightarrow> string
     \<Rightarrow> real list \<Rightarrow> real list \<Rightarrow> column_stats \<Rightarrow> bool" where
  "fitted_pair historical_dfs target_columns category column X y st \<longleftrightarrow>
     (\<exists>df columns col.
        (category, df) \<in> set historical_dfs \<and> map_of target_columns category = Some columns
        \<and> column \<in> set columns \<and> df_column df column = Some col
        \<and> None \<notin> set col \<and> X = map real_of_int (df_Year df) \<and> y = map the col
        \<and> stats_of X y = Inr st)"


section \<open>Example runs\<close>





text \<open>A series that is 0 throughout: its forecast is 0.\<close>

definition zero_dfs :: "(string \<times> dataframe) list" where
  "zero_dfs =
     [(''Migration'',
       \<lparr>df_Year = [2024, 2025], df_columns = [(''Net migration'', [Some 0, Some 0])]\<rparr>)]"

definition zero_columns :: "(string \<times> string list) list" where
  "zero_columns = [(''Migration'', [''Net migration''])]"

definition zero_row :: forecast_row where
  "zero_row = \<lparr>Year = 2026, Category = ''Migration'', Metric = ''Net migration'',
      Forecast = 0, Uncertainty = 50, CV = Some PInf, R2 = Some (Fin 1), MAPE = None\<rparr>"

definition zero_assessed :: reliability_row where
  "zero_assessed = \<lparr>Year = 2026, Category = ''Migration'', Metric = ''Net migration'',
      Forecast = 0, Uncertainty = 50, CV = Some PInf, R2 = Some (Fin 1), MAPE = None,
      Uncertainty_pct = PInf, Reliability = ''Very Low Reliability''\<rparr>"







text \<open>A series of mean 0 that is not constant.\<close>

definition zmean_dfs :: "(string \<times> dataframe) list" where
  "zmean_dfs =
     [(''Migration'',
       \<lparr>df_Year = [2024, 2025], df_columns = [(''Net migration'', [Some (- 1), Some 1])]\<rparr>)]"

definition zmean_columns :: "(string \<times> string list) list" where
  "zmean_columns = [(''Migration'', [''Net migration''])]"

definition zmean_row :: forecast_row where
  "zmean_row =
     \<lparr>Year = 2026, Category = ''Migration'', Metric = ''Net migration'',
      Forecast = 3, Uncertainty = 50, CV = Some PInf, R2 = Some (Fin 1), MAPE = Some 0\<rparr>"


text \<open>A series of a single point.\<close>

definition single_dfs :: "(string \<times> dataframe) list" where
  "single_dfs =
     [(''Work Permits'',
       \<lparr>df_Year = [2025], df_columns = [(''Permanent residency'', [Some 7])]\<rparr>)]"

definition single_columns :: "(string \<times> string list) list" where
  "single_columns = [(''Work Permits'', [''Permanent residency''])]"

definition single_row :: forecast_row where
  "single_row =
     \<lparr>Year = 2026, Category = ''Work Permits'', Metric = ''Permanent residency'',
      Forecast = 7, Uncertainty = 50, CV = None, R2 = Some NaN, MAPE = Some 0\<rparr>"

text \<open>A run whose only requested column has a missing value.\<close>

definition missing_dfs :: "(string \<times> dataframe) list" where
  "missing_dfs =
     [(''Work Permits'',
       \<lparr>df_Year = [2024, 2025], df_columns = [(''Study permit'', [Some 5, None])]\<rparr>)]"

definition missing_columns :: "(string \<times> string list) list" where
  "missing_columns = [(''Work Permits'', [''Study permit''])]"




section \<open>Auxiliary facts\<close>

lemma py_round_bounds: "\<lfloor>x\<rfloor> \<le> py_round x \<and> py_round x \<le> \<lfloor>x\<rfloor> + 1"
  by (simp add: py_round_def Let_def)

lemma py_round_ge:
  assumes "real_of_int n \<le> x"
  shows "n \<le> py_round x"
proof -
  from assms have "n \<le> \<lfloor>x\<rfloor>" by (simp add: le_floor_iff)
  with py_round_bounds [of x] show ?thesis by linarith
qed

lemma enumerate_upto:
  "enumerate 0 [a + 1 .. a + h] = map (\<lambda>i. (i, a + 1 + int i)) [0 ..< nat h]"
proof (rule nth_equalityI)
  show "length (enumerate 0 [a + 1 .. a + h]) = length (map (\<lambda>i. (i, a + 1 + int i)) [0 ..< nat h])"
    by simp
next
  fix i assume "i < length (enumerate 0 [a + 1 .. a + h])"
  then have i: "i < nat h" by simp
  then show "enumerate 0 [a + 1 .. a + h] ! i = map (\<lambda>i. (i, a + 1 + int i)) [0 ..< nat h] ! i"
    by (simp add: nth_enumerate_eq)
qed

lemma column_rows_cases:
  assumes "column_rows [ly + 1 .. ly + h] icv ir2 category df column = Inr rows"
  obtains col where "df_column df column = Some col" "None \<in> set col" "rows = []"
  | col st where "df_column df column = Some col" "None \<notin> set col"
      "stats_of (map real_of_int (df_Year df)) (map the col) = Inr st"
      "rows = map (\<lambda>i. result_row icv ir2 category column st i (ly + 1 + int i)) [0 ..< nat h]"
  using assms unfolding column_rows_def enumerate_upto
  by (auto split: option.splits if_splits sum.splits simp: comp_def)

lemma column_rows_labels:
  assumes "column_rows fy icv ir2 category df column = Inr rows" and "r \<in> set rows"
  shows "Category r = category \<and> Metric r = column"
  using assms unfolding column_rows_def
  by (auto split: option.splits if_splits sum.splits simp: result_row_def Let_def)

lemma columns_rows_member:
  assumes "columns_rows fy icv ir2 category df columns = Inr rows" and "column \<in> set columns"
  shows "\<exists>rs. column_rows fy icv ir2 category df column = Inr rs \<and> set rs \<subseteq> set rows"
  using assms
proof (induction columns arbitrary: rows)
  case Nil
  then show ?case by simp
next
  case (Cons c rest)
  from Cons.prems(1) obtain rs others where
    rs: "column_rows fy icv ir2 category df c = Inr rs"
    and others: "columns_rows fy icv ir2 category df rest = Inr others"
    and rows: "rows = rs @ others"
    by (auto split: sum.splits)
  show ?case
  proof (cases "column = c")
    case True
    with rs rows show ?thesis by auto
  next
    case False
    with Cons.prems(2) have "column \<in> set rest" by simp
    from Cons.IH [OF others this] rows show ?thesis by auto
  qed
qed

lemma columns_rows_origin:
  assumes "columns_rows fy icv ir2 category df columns = Inr rows" and "r \<in> set rows"
  shows "\<exists>column rs. column \<in> set columns \<and> column_rows fy icv ir2 category df column = Inr rs \<and> r \<in> set rs"
  using assms
proof (induction columns arbitrary: rows)
  case Nil
  then show ?case by simp
next
  case (Cons c rest)
  from Cons.prems(1) obtain rs others where
    rs: "column_rows fy icv ir2 category df c = Inr rs"
    and others: "columns_rows fy icv ir2 category df rest = Inr others"
    and rows: "rows = rs @ others"
    by (auto split: sum.splits)
  from Cons.prems(2) rows consider "r \<in> set rs" | "r \<in> set others" by auto
  then show ?case
  proof cases
    case 1
    with rs show ?thesis by auto
  next
    case 2
    from Cons.IH [OF others 2] show ?thesis by auto
  qed
qed

lemma datasets_rows_member:
  assumes "datasets_rows fy icv ir2 tc dfs = Inr results" and "(category, df) \<in> set dfs"
  shows "\<exists>columns rows. map_of tc category = Some columns
           \<and> columns_rows fy icv ir2 category df columns = Inr rows \<and> set rows \<subseteq> set results"
  using assms
proof (induction dfs arbitrary: results)
  case Nil
  then show ?case by simp
next
  case (Cons p rest)
  obtain c d where p: "p = (c, d)" by (cases p)
  from Cons.prems(1) p obtain columns rows others where
    cols: "map_of tc c = Some columns"
    and rows: "columns_rows fy icv ir2 c d columns = Inr rows"
    and others: "datasets_rows fy icv ir2 tc rest = Inr others"
    and results: "results = rows @ others"
    by (auto split: option.splits sum.splits)
  show ?case
  proof (cases "(category, df) = (c, d)")
    case True
    with cols rows results show ?thesis by auto
  next
    case False
    with Cons.prems(2) p have "(category, df) \<in> set rest" by auto
    from Cons.IH [OF others this] results show ?thesis by auto
  qed
qed

lemma datasets_rows_origin:
  assumes "datasets_rows fy icv ir2 tc dfs = Inr results" and "r \<in> set results"
  shows "\<exists>category df columns rows. (category, df) \<in> set dfs \<and> map_of tc category = Some columns
           \<and> columns_rows fy icv ir2 category df columns = Inr rows \<and> r \<in> set rows"
  using assms
proof (induction dfs arbitrary: results)
  case Nil
  then show ?case by simp
next
  case (Cons p rest)
  obtain c d where p: "p = (c, d)" by (cases p)
  from Cons.prems(1) p obtain columns rows others where
    cols: "map_of tc c = Some columns"
    and rows: "columns_rows fy icv ir2 c d columns = Inr rows"
    and others: "datasets_rows fy icv ir2 tc rest = Inr others"
    and results: "results = rows @ others"
    by (auto split: option.splits sum.splits)
  from Cons.prems(2) results consider "r \<in> set rows" | "r \<in> set others" by auto
  then show ?case
  proof cases
    case 1
    with cols rows p show ?thesis by auto
  next
    case 2
    from Cons.IH [OF others 2] show ?thesis by auto
  qed
qed

lemma generate_Inr:
  assumes "generate_forecast_table dfs tc h icv ir2 = Inr t"
  obtains ly results where "last_year_of dfs = Inr ly"
    "datasets_rows [ly + 1 .. ly + h] icv ir2 tc dfs = Inr results"
    "results \<noteq> []" "t = sort_table results"
  using assms unfolding generate_forecast_table_def
  by (auto split: sum.splits if_splits simp: Let_def)

lemma set_sort_table: "set (sort_table rows) = set rows"
  by (simp add: sort_table_def)

lemma table_row_origin:
  assumes "generate_forecast_table dfs tc h icv ir2 = Inr t" and "r \<in> set t"
  obtains ly X y st i where "last_year_of dfs = Inr ly"
    "fitted_pair dfs tc (Category r) (Metric r) X y st" "i < nat h"
    "r = result_row icv ir2 (Category r) (Metric r) st i (ly + 1 + int i)"
proof -
  from assms(1) obtain ly results where ly: "last_year_of dfs = Inr ly"
    and results: "datasets_rows [ly + 1 .. ly + h] icv ir2 tc dfs = Inr results"
    and t: "t = sort_table results"
    by (rule generate_Inr)
  from assms(2) t have "r \<in> set results" by (simp add: set_sort_table)
  from datasets_rows_origin [OF results this] obtain category df columns rows where
    df: "(category, df) \<in> set dfs" and cols: "map_of tc category = Some columns"
    and rows: "columns_rows [ly + 1 .. ly + h] icv ir2 category df columns = Inr rows"
    and r: "r \<in> set rows" by blast
  from columns_rows_origin [OF rows r] obtain column rs where
    column: "column \<in> set columns"
    and rs: "column_rows [ly + 1 .. ly + h] icv ir2 category df column = Inr rs"
    and r': "r \<in> set rs" by blast
  from column_rows_labels [OF rs r'] have lab: "Category r = category" "Metric r = column"
    by simp_all
  from rs r' obtain col st where col: "df_column df column = Some col"
    "None \<notin> set col" "stats_of (map real_of_int (df_Year df)) (map the col) = Inr st"
    and rs_eq: "rs = map (\<lambda>i. result_row icv ir2 category column st i (ly + 1 + int i)) [0 ..< nat h]"
    by (cases rule: column_rows_cases) auto
  from r' rs_eq obtain i where i: "i < nat h"
    "r = result_row icv ir2 category column st i (ly + 1 + int i)" by auto
  have fp: "fitted_pair dfs tc (Category r) (Metric r) (map real_of_int (df_Year df)) (map the col) st"
    unfolding fitted_pair_def lab using df cols column col by blast
  from i(2) have r_eq: "r = result_row icv ir2 (Category r) (Metric r) st i (ly + 1 + int i)"
    unfolding lab .
  show ?thesis by (rule that [OF ly fp i(1) r_eq])
qed

lemma stats_of_Inr:
  assumes "stats_of X y = Inr st"
  shows "fit X y = Inr (model st)"
    and "mae st = mean (map (\<lambda>(a, x). \<bar>a - predict (model st) x\<bar>) (zip y X))"
    and "cv st = (if mean y \<noteq> 0 then Fin (std y / mean y * 100) else PInf)"
    and "r2 st = score (model st) X y"
  using assms unfolding stats_of_def
  by (auto split: sum.splits simp: Let_def zip_map2 comp_def case_prod_unfold)






lemma reliability_Unknown: "reliability_of pct rsq = ''Unknown'' \<longleftrightarrow> pct = NaN"
  by (cases pct) (auto simp: reliability_of_def)

lemma zero_stats: "stats_of [2024, 2025] [0, 0]
   = Inr \<lparr>model = \<lparr>coef = 0, intercept = 0\<rparr>, mae = 0, cv = PInf, r2 = Fin 1, mape = None\<rparr>"
  by (simp add: stats_of_def fit_def predict_def mean_def score_def Let_def)

lemma zero_table: "generate_forecast_table zero_dfs zero_columns 1 True True = Inr [zero_row]"
  by (simp add: generate_forecast_table_def last_year_of_def zero_dfs_def
      zero_columns_def column_rows_def df_column_def zero_stats enumerate_eq_zip result_row_def Let_def
      predict_def bounded_uncertainty_def py_round_def round_to_def sort_table_def zero_row_def)

lemma zero_assess: "assess_forecast_reliability [zero_row] = Inr [zero_assessed]"
  unfolding zero_row_def zero_assessed_def
  by (simp add: assess_row_def uncertainty_pct_of_def np_div_def reliability_of_def)

lemma assess_origin:
  assumes "assess_forecast_reliability table = Inr rtable" and "r \<in> set rtable"
  shows "\<exists>r0 rsq. r0 \<in> set table \<and> R2 r0 = Some rsq \<and> r = assess_row r0 rsq"
  using assms
proof (induction table arbitrary: rtable)
  case Nil
  then show ?case by simp
next
  case (Cons a table)
  from Cons.prems(1) obtain rsq others where a: "R2 a = Some rsq"
    and others: "assess_forecast_reliability table = Inr others"
    and rt: "rtable = assess_row a rsq # others"
    by (auto split: option.splits sum.splits)
  from Cons.prems(2) rt consider "r = assess_row a rsq" | "r \<in> set others" by auto
  then show ?case
  proof cases
    case 1
    with a show ?thesis by auto
  next
    case 2
    from Cons.IH [OF others 2] show ?thesis by auto
  qed
qed

lemma assess_total:
  assumes "\<And>r. r \<in> set table \<Longrightarrow> R2 r \<noteq> None"
  shows "\<exists>rtable. assess_forecast_reliability table = Inr rtable"
  using assms
proof (induction table)
  case Nil
  then show ?case by simp
next
  case (Cons a table)
  then obtain rsq where "R2 a = Some rsq" by fastforce
  moreover from Cons obtain others where "assess_forecast_reliability table = Inr others"
    by fastforce
  ultimately show ?case by simp
qed

lemma py_round_near: "\<bar>real_of_int (py_round x) - x\<bar> \<le> 1 / 2"
  unfolding py_round_def Let_def by (auto; linarith)

lemma bounded_uncertainty_floor:
  "\<bar>f\<bar> < 1000 \<Longrightarrow> 50 \<le> bounded_uncertainty m k f"
  by (simp add: bounded_uncertainty_def Let_def)

lemma built_zero_forecast:
  assumes "generate_forecast_table dfs tc h icv ir2 = Inr table" and "r \<in> set table"
    and "Forecast r = 0"
  shows "50 \<le> Uncertainty r"
proof -
  from assms(1,2) obtain ly X y st i where
    r: "r = result_row icv ir2 (Category r) (Metric r) st i (ly + 1 + int i)"
    by (rule table_row_origin)
  define f where "f = predict (model st) (real_of_int (ly + 1 + int i))"
  have F: "Forecast r = py_round f" and U: "Uncertainty r = py_round (bounded_uncertainty (mae st) (i + 1) f)"
    by (subst r, simp add: result_row_def Let_def f_def)+
  from py_round_near [of f] F assms(3) have "\<bar>f\<bar> \<le> 1 / 2" by simp
  then have "50 \<le> bounded_uncertainty (mae st) (i + 1) f"
    by (intro bounded_uncertainty_floor) simp
  then show ?thesis unfolding U by (intro py_round_ge) simp
qed

lemma built_R2:
  assumes "generate_forecast_table dfs tc h icv True = Inr table" and "r \<in> set table"
  shows "R2 r \<noteq> None"
proof -
  from assms(1,2) obtain ly X y st i where
    r: "r = result_row icv True (Category r) (Metric r) st i (ly + 1 + int i)"
    by (rule table_row_origin)
  show ?thesis by (subst r) (simp add: result_row_def Let_def)
qed






lemma zmean_fit: "fit [2024, 2025] [- 1, 1] = Inr \<lparr>coef = 2, intercept = - 4049\<rparr>"
  by (simp add: fit_def mean_def Let_def power2_eq_square)

lemma zmean_stats:
  "stats_of [2024, 2025] [- 1, 1]
     = Inr \<lparr>model = \<lparr>coef = 2, intercept = - 4049\<rparr>, mae = 0,
            cv = PInf, r2 = Fin 1, mape = Some 0\<rparr>"
  by (simp add: stats_of_def zmean_fit predict_def mean_def score_def Let_def power2_eq_square)

lemma zmean_table:
  "generate_forecast_table zmean_dfs zmean_columns 1 True True = Inr [zmean_row]"
  by (simp add: generate_forecast_table_def last_year_of_def zmean_dfs_def
      zmean_columns_def column_rows_def df_column_def zmean_stats enumerate_eq_zip result_row_def Let_def
      predict_def bounded_uncertainty_def py_round_def round_to_def sort_table_def zmean_row_def)


lemma table_row_values:
  assumes "generate_forecast_table dfs tc h icv ir2 = Inr table" and "r \<in> set table"
  obtains ly X y st k where "last_year_of dfs = Inr ly"
    "fitted_pair dfs tc (Category r) (Metric r) X y st"
    "Year r = ly + int k" "1 \<le> k" "int k \<le> h"
    "Forecast r = py_round (predict (model st) (real_of_int (Year r)))"
    "Uncertainty r
       = py_round (bounded_uncertainty (mae st) k (predict (model st) (real_of_int (Year r))))"
    "CV r = (if icv then Some (np_round 1 (cv st)) else None)"
    "R2 r = (if ir2 then Some (np_round 3 (r2 st)) else None)"
    "MAPE r = map_option (round_to 1) (mape st)"
proof -
  from assms obtain ly X y st i where ly: "last_year_of dfs = Inr ly"
    and fp: "fitted_pair dfs tc (Category r) (Metric r) X y st"
    and i: "i < nat h"
    and r: "r = result_row icv ir2 (Category r) (Metric r) st i (ly + 1 + int i)"
    by (rule table_row_origin)
  have yr: "Year r = ly + int (Suc i)"
    by (subst r) (simp add: result_row_def Let_def)
  have y': "ly + 1 + int i = Year r" using yr by simp
  have v: "Forecast r = py_round (predict (model st) (real_of_int (Year r)))"
    "Uncertainty r
       = py_round (bounded_uncertainty (mae st) (Suc i) (predict (model st) (real_of_int (Year r))))"
    "CV r = (if icv then Some (np_round 1 (cv st)) else None)"
    "R2 r = (if ir2 then Some (np_round 3 (r2 st)) else None)"
    "MAPE r = map_option (round_to 1) (mape st)"
    unfolding y' [symmetric] by (subst r, simp add: result_row_def Let_def)+
  from i have "int (Suc i) \<le> h" by simp
  with ly fp yr v show ?thesis using that [of ly X y st "Suc i"] by simp
qed


lemma assess_Inr_map:
  "assess_forecast_reliability table = Inr rtable \<Longrightarrow>
   rtable = map (\<lambda>r. assess_row r (the (R2 r))) table"
proof (induction table arbitrary: rtable)
  case Nil
  then show ?case by simp
next
  case (Cons a table)
  from Cons.prems obtain rsq others where a: "R2 a = Some rsq"
    and others: "assess_forecast_reliability table = Inr others"
    and rt: "rtable = assess_row a rsq # others"
    by (auto split: option.splits sum.splits)
  from Cons.IH [OF others] a rt show ?case by simp
qed


lemma assess_row_fields:
  "Year (assess_row r q) = Year r" "Category (assess_row r q) = Category r"
  "Metric (assess_row r q) = Metric r" "Forecast (assess_row r q) = Forecast r"
  "Uncertainty (assess_row r q) = Uncertainty r" "CV (assess_row r q) = CV r"
  "R2 (assess_row r q) = R2 r" "MAPE (assess_row r q) = MAPE r"
  "Uncertainty_pct (assess_row r q) = np_round 1 (uncertainty_pct_of r)"
  "Reliability (assess_row r q) = reliability_of (uncertainty_pct_of r) q"
  by (simp_all add: assess_row_def)

lemma single_point_stats:
  "stats_of [x] [v]
     = Inr \<lparr>model = \<lparr>coef = 0, intercept = v\<rparr>, mae = 0,
            cv = (if v \<noteq> 0 then Fin 0 else PInf), r2 = NaN,
            mape = (if v \<noteq> 0 then Some 0 else None)\<rparr>"
  by (simp add: stats_of_def fit_def predict_def mean_def std_def score_def Let_def)

lemma single_table:
  "generate_forecast_table single_dfs single_columns 1 False True = Inr [single_row]"
  by (simp add: generate_forecast_table_def last_year_of_def single_dfs_def
      single_columns_def column_rows_def df_column_def single_point_stats enumerate_eq_zip result_row_def
      Let_def predict_def bounded_uncertainty_def py_round_def round_to_def sort_table_def
      single_row_def)

lemma fitted_pair_rows_in_table:
  assumes "generate_forecast_table dfs tc h icv ir2 = Inr table"
    and "(category, df) \<in> set dfs" and "map_of tc category = Some columns"
    and "column \<in> set columns" and "df_column df column = Some col"
    and "None \<notin> set col"
  obtains ly st where "last_year_of dfs = Inr ly"
    "stats_of (map real_of_int (df_Year df)) (map the col) = Inr st"
    "\<And>i. i < nat h \<Longrightarrow> result_row icv ir2 category column st i (ly + 1 + int i) \<in> set table"
proof -
  from assms(1) obtain ly results where ly: "last_year_of dfs = Inr ly"
    and results: "datasets_rows [ly + 1 .. ly + h] icv ir2 tc dfs = Inr results"
    and t: "table = sort_table results"
    by (rule generate_Inr)
  from datasets_rows_member [OF results assms(2)] assms(3) obtain rows where
    rows: "columns_rows [ly + 1 .. ly + h] icv ir2 category df columns = Inr rows"
    and sub1: "set rows \<subseteq> set results" by auto
  from columns_rows_member [OF rows assms(4)] obtain rs where
    rs: "column_rows [ly + 1 .. ly + h] icv ir2 category df column = Inr rs"
    and sub2: "set rs \<subseteq> set rows" by blast
  from rs assms(5,6) obtain st where
    st: "stats_of (map real_of_int (df_Year df)) (map the col) = Inr st"
    and rs_eq: "rs = map (\<lambda>i. result_row icv ir2 category column st i (ly + 1 + int i)) [0 ..< nat h]"
    by (cases rule: column_rows_cases) auto
  have "result_row icv ir2 category column st i (ly + 1 + int i) \<in> set table" if "i < nat h" for i
  proof -
    from that have "result_row icv ir2 category column st i (ly + 1 + int i) \<in> set rs"
      unfolding rs_eq by simp
    with sub1 sub2 show ?thesis unfolding t set_sort_table by blast
  qed
  with ly st show ?thesis using that by blast
qed

lemma missing_column_skipped:
  assumes "df_column df column = Some col" and "None \<in> set col"
  shows "column_rows fy icv ir2 category df column = Inr []"
  using assms by (simp add: column_rows_def)

lemma missing_columns_dropped:
  assumes "\<And>column. column \<in> set columns \<Longrightarrow> \<not> keep column \<Longrightarrow>
             (\<exists>col. df_column df column = Some col \<and> None \<in> set col)"
  shows "columns_rows fy icv ir2 category df columns
           = columns_rows fy icv ir2 category df (filter keep columns)"
  using assms
proof (induction columns)
  case Nil
  then show ?case by simp
next
  case (Cons c columns)
  then have IH: "columns_rows fy icv ir2 category df columns
           = columns_rows fy icv ir2 category df (filter keep columns)" by simp
  show ?case
  proof (cases "keep c")
    case True
    with IH show ?thesis by (auto split: sum.splits)
  next
    case False
    with Cons.prems obtain col where "df_column df c = Some col" "None \<in> set col"
      by auto
    then have "column_rows fy icv ir2 category df c = Inr []" by (rule missing_column_skipped)
    with False IH show ?thesis by (auto split: sum.splits)
  qed
qed

















lemma built_pct_defined:
  assumes "generate_forecast_table dfs tc h icv ir2 = Inr table" and "r \<in> set table"
  shows "uncertainty_pct_of r \<noteq> NaN"
proof (cases "Forecast r = 0")
  case True
  from built_zero_forecast [OF assms True] have "50 \<le> Uncertainty r" .
  with True show ?thesis by (simp add: uncertainty_pct_of_def np_div_def)
next
  case False
  then show ?thesis by (simp add: uncertainty_pct_of_def np_div_def)
qed

lemma built_never_Unknown:
  assumes "generate_forecast_table dfs tc h icv ir2 = Inr table"
    and "assess_forecast_reliability table = Inr rtable" and "r \<in> set rtable"
  shows "Reliability r \<noteq> ''Unknown''"
proof -
  from assess_origin [OF assms(2,3)] obtain r0 rsq where r0: "r0 \<in> set table"
    and r: "r = assess_row r0 rsq" by blast
  from built_pct_defined [OF assms(1) r0] show ?thesis
    unfolding r assess_row_fields by (simp add: reliability_Unknown)
qed

section \<open>The uncertainty of a forecast\<close>



section \<open>The reliability tier\<close>


text \<open>
  C4, as stated, fails: the all-zero series is forecast as 0 with uncertainty 50, and
  the classifier gives this row the percentage infinity and the tier Very Low
  Reliability, not an undefined percentage and the tier Unknown.
\<close>

theorem zero_forecast_counterexample:
  "generate_forecast_table zero_dfs zero_columns 1 True True = Inr [zero_row]
   \<and> assess_forecast_reliability [zero_row] = Inr [zero_assessed]
   \<and> Forecast zero_assessed = 0
   \<and> Uncertainty_pct zero_assessed = PInf
   \<and> Reliability zero_assessed = ''Very Low Reliability''
   \<and> Reliability zero_assessed \<noteq> ''Unknown''"
  by (intro conjI zero_table zero_assess) (simp_all add: zero_assessed_def)

text \<open>
  C4, amended. A table built with the R-squared column is classified without an error,
  and every row whose stored forecast is 0 has a stored uncertainty of at least 50, the
  percentage positive infinity and the tier Very Low Reliability.
\<close>

theorem zero_forecast_infinite_pct:
  assumes "generate_forecast_table historical_dfs target_columns years_to_forecast include_cv True = Inr table"
  shows "\<exists>rtable. assess_forecast_reliability table = Inr rtable
           \<and> (\<forall>r \<in> set rtable. Forecast r = 0 \<longrightarrow>
                 50 \<le> Uncertainty r \<and> Uncertainty_pct r = PInf
                 \<and> Reliability r = ''Very Low Reliability'')"
proof -
  from assess_total [of table] built_R2 [OF assms] obtain rtable where
    rt: "assess_forecast_reliability table = Inr rtable" by blast
  have "50 \<le> Uncertainty r \<and> Uncertainty_pct r = PInf \<and> Reliability r = ''Very Low Reliability''"
    if "r \<in> set rtable" and "Forecast r = 0" for r
  proof -
    from assess_origin [OF rt that(1)] obtain r0 rsq where r0: "r0 \<in> set table"
      and r: "r = assess_row r0 rsq" by blast
    from that(2) r have z: "Forecast r0 = 0" by (simp add: assess_row_def)
    from built_zero_forecast [OF assms r0 z] have u: "50 \<le> Uncertainty r0" .
    then have "uncertainty_pct_of r0 = PInf"
      by (simp add: uncertainty_pct_of_def np_div_def z)
    with u show ?thesis by (simp add: r assess_row_def reliability_of_def)
  qed
  with rt show ?thesis by blast
qed

theorem zero_forecast_infinite_pct_witness:
  "generate_forecast_table zero_dfs zero_columns 1 True True = Inr [zero_row]
   \<and> (\<exists>rtable. assess_forecast_reliability [zero_row] = Inr rtable
           \<and> (\<forall>r \<in> set rtable. Forecast r = 0 \<longrightarrow>
                 50 \<le> Uncertainty r \<and> Uncertainty_pct r = PInf
                 \<and> Reliability r = ''Very Low Reliability''))
   \<and> Forecast zero_assessed = 0 \<and> zero_assessed \<in> set [zero_assessed]"
  using zero_forecast_infinite_pct [OF zero_table] zero_table by (simp add: zero_assessed_def)




section \<open>The point forecast\<close>




section \<open>The coefficient of variation\<close>

text \<open>
  C8, as stated, fails: the series -1, 1 has mean 0 and is not constant, and its row
  holds the coefficient of variation positive infinity, a numeric value.
\<close>

theorem zero_mean_cv_counterexample:
  "generate_forecast_table zmean_dfs zmean_columns 1 True True = Inr [zmean_row]
   \<and> mean [- 1, 1] = 0
   \<and> CV zmean_row = Some PInf"
  by (intro conjI zmean_table) (simp_all add: zmean_row_def mean_def)

text \<open>
  C8, amended. In a table built with the CV column, the row of a series whose mean is 0
  holds the floating-point value positive infinity; otherwise it holds the finite
  \<open>std / mean * 100\<close> rounded to one decimal, so the column never holds NaN. The
  classifier copies the column unchanged and raises nothing because of it.
\<close>

theorem zero_mean_cv_infinite:
  assumes "generate_forecast_table historical_dfs target_columns years_to_forecast True include_r2 = Inr table"
    and "r \<in> set table"
  shows "(\<exists>X y st.
            fitted_pair historical_dfs target_columns (Category r) (Metric r) X y st
          \<and> (mean y = 0 \<longrightarrow> CV r = Some PInf)
          \<and> (mean y \<noteq> 0 \<longrightarrow> CV r = Some (Fin (round_to 1 (std y / mean y * 100))))
          \<and> CV r \<noteq> Some NaN)
       \<and> (include_r2 \<longrightarrow>
            (\<exists>rtable. assess_forecast_reliability table = Inr rtable
               \<and> map CV rtable = map CV table))"
proof
  from assms obtain ly X y st k where
    fp: "fitted_pair historical_dfs target_columns (Category r) (Metric r) X y st"
    and C: "CV r = (if True then Some (np_round 1 (cv st)) else None)"
    by (rule table_row_values)
  from fp have "stats_of X y = Inr st" by (auto simp: fitted_pair_def)
  then have "cv st = (if mean y \<noteq> 0 then Fin (std y / mean y * 100) else PInf)"
    by (rule stats_of_Inr(3))
  with C have "(mean y = 0 \<longrightarrow> CV r = Some PInf)
          \<and> (mean y \<noteq> 0 \<longrightarrow> CV r = Some (Fin (round_to 1 (std y / mean y * 100))))
          \<and> CV r \<noteq> Some NaN" by simp
  with fp show "\<exists>X y st.
            fitted_pair historical_dfs target_columns (Category r) (Metric r) X y st
          \<and> (mean y = 0 \<longrightarrow> CV r = Some PInf)
          \<and> (mean y \<noteq> 0 \<longrightarrow> CV r = Some (Fin (round_to 1 (std y / mean y * 100))))
          \<and> CV r \<noteq> Some NaN" by blast
next
  show "include_r2 \<longrightarrow>
            (\<exists>rtable. assess_forecast_reliability table = Inr rtable
               \<and> map CV rtable = map CV table)"
  proof
    assume "include_r2"
    with assms(1) have g: "generate_forecast_table historical_dfs target_columns years_to_forecast True True = Inr table"
      by simp
    from assess_total [of table] built_R2 [OF g] obtain rtable where
      rt: "assess_forecast_reliability table = Inr rtable" by blast
    from assess_Inr_map [OF rt] have "map CV rtable = map CV table"
      by (simp add: assess_row_fields comp_def)
    with rt show "\<exists>rtable. assess_forecast_reliability table = Inr rtable
               \<and> map CV rtable = map CV table" by blast
  qed
qed

theorem zero_mean_cv_infinite_witness:
  "generate_forecast_table zmean_dfs zmean_columns 1 True True = Inr [zmean_row]
   \<and> zmean_row \<in> set [zmean_row]
   \<and> (\<exists>X y st.
            fitted_pair zmean_dfs zmean_columns (Category zmean_row) (Metric zmean_row) X y st
          \<and> (mean y = 0 \<longrightarrow> CV zmean_row = Some PInf)
          \<and> (mean y \<noteq> 0 \<longrightarrow> CV zmean_row = Some (Fin (round_to 1 (std y / mean y * 100))))
          \<and> CV zmean_row \<noteq> Some NaN)
   \<and> (\<exists>rtable. assess_forecast_reliability [zmean_row] = Inr rtable
          \<and> map CV rtable = map CV [zmean_row])
   \<and> mean [- 1, 1] = 0 \<and> CV zmean_row = Some PInf"
proof -
  have m: "zmean_row \<in> set [zmean_row]" by simp
  have e: "mean [- 1, 1] = 0 \<and> CV zmean_row = Some PInf"
    by (simp add: mean_def zmean_row_def)
  from zero_mean_cv_infinite [OF zmean_table m] zmean_table e show ?thesis by simp
qed

section \<open>Rounded values and the uncertainty percentage\<close>



section \<open>Short series and missing values\<close>

text \<open>
  C5, as stated, fails: the one-point series (2025, 7) is fitted, to the horizontal line
  through the point, and the builder emits a row for it; nothing is signalled and the
  pair is not skipped.
\<close>

theorem single_point_counterexample:
  "generate_forecast_table single_dfs single_columns 1 False True = Inr [single_row]
   \<and> fit [2025] [7] = Inr \<lparr>coef = 0, intercept = 7\<rparr>
   \<and> length [2025 :: int] < 2"
  by (intro conjI single_table) (simp_all add: fit_def mean_def)

text \<open>
  C5, amended. A pair whose series has exactly one historical point and no missing value
  is not rejected and not skipped: the fitter returns the horizontal line through the
  point, and a built table holds, for every forecast year, a row of that pair whose
  forecast is the rounded value of the point.
\<close>

theorem single_point_series_forecast:
  assumes "generate_forecast_table historical_dfs target_columns years_to_forecast include_cv include_r2 = Inr table"
    and "(category, df) \<in> set historical_dfs"
    and "map_of target_columns category = Some columns"
    and "column \<in> set columns"
    and "df_Year df = [x]"
    and "df_column df column = Some [Some v]"
  shows "fit [real_of_int x] [v] = Inr \<lparr>coef = 0, intercept = v\<rparr>
       \<and> (\<exists>last_year. last_year_of historical_dfs = Inr last_year
            \<and> (\<forall>year \<in> set [last_year + 1 .. last_year + years_to_forecast].
                  \<exists>r \<in> set table. Year r = year \<and> Category r = category \<and> Metric r = column
                     \<and> Forecast r = py_round v))"
proof
  show "fit [real_of_int x] [v] = Inr \<lparr>coef = 0, intercept = v\<rparr>"
    by (simp add: fit_def mean_def)
next
  have nn: "None \<notin> set [Some v]" by simp
  from fitted_pair_rows_in_table [OF assms(1-4) assms(6) nn] obtain ly st where
    ly: "last_year_of historical_dfs = Inr ly"
    and st: "stats_of (map real_of_int (df_Year df)) (map the [Some v]) = Inr st"
    and rows: "\<And>i. i < nat years_to_forecast \<Longrightarrow>
      result_row include_cv include_r2 category column st i (ly + 1 + int i) \<in> set table"
    by blast
  from st have m: "model st = \<lparr>coef = 0, intercept = v\<rparr>"
    unfolding assms(5) by (auto simp: single_point_stats)
  have "\<exists>r \<in> set table. Year r = year \<and> Category r = category \<and> Metric r = column
          \<and> Forecast r = py_round v"
    if "year \<in> set [ly + 1 .. ly + years_to_forecast]" for year
  proof -
    define i where "i = nat (year - ly - 1)"
    from that have i: "i < nat years_to_forecast" "ly + 1 + int i = year"
      unfolding i_def by auto
    let ?r = "result_row include_cv include_r2 category column st i (ly + 1 + int i)"
    from rows [OF i(1)] have "?r \<in> set table" .
    moreover have "Year ?r = year \<and> Category ?r = category \<and> Metric ?r = column
          \<and> Forecast ?r = py_round v"
      using i(2) by (simp add: result_row_def Let_def predict_def m)
    ultimately show ?thesis by blast
  qed
  with ly show "\<exists>last_year. last_year_of historical_dfs = Inr last_year
            \<and> (\<forall>year \<in> set [last_year + 1 .. last_year + years_to_forecast].
                  \<exists>r \<in> set table. Year r = year \<and> Category r = category \<and> Metric r = column
                     \<and> Forecast r = py_round v)" by blast
qed

theorem single_point_series_forecast_witness:
  "generate_forecast_table single_dfs single_columns 1 False True = Inr [single_row]
   \<and> (''Work Permits'',
        \<lparr>df_Year = [2025], df_columns = [(''Permanent residency'', [Some 7])]\<rparr>) \<in> set single_dfs
   \<and> map_of single_columns ''Work Permits'' = Some [''Permanent residency'']
   \<and> ''Permanent residency'' \<in> set [''Permanent residency'']
   \<and> fit [real_of_int 2025] [7] = Inr \<lparr>coef = 0, intercept = 7\<rparr>
   \<and> (\<exists>last_year. last_year_of single_dfs = Inr last_year
        \<and> (\<exists>r \<in> set [single_row]. Year r = last_year + 1 \<and> Category r = ''Work Permits''
              \<and> Metric r = ''Permanent residency'' \<and> Forecast r = py_round 7))"
proof -
  let ?df = "\<lparr>df_Year = [2025], df_columns = [(''Permanent residency'', [Some 7])]\<rparr>"
  have a: "(''Work Permits'', ?df) \<in> set single_dfs" by (simp add: single_dfs_def)
  have b: "map_of single_columns ''Work Permits'' = Some [''Permanent residency'']"
    by (simp add: single_columns_def)
  have c: "''Permanent residency'' \<in> set [''Permanent residency'']" by simp
  have d: "df_Year ?df = [2025]" by simp
  have e: "df_column ?df ''Permanent residency'' = Some [Some 7]"
    by (simp add: df_column_def)
  from single_point_series_forecast [OF single_table a b c d e]
  obtain ly where ly: "last_year_of single_dfs = Inr ly"
    and all: "\<forall>year \<in> set [ly + 1 .. ly + 1].
                  \<exists>r \<in> set [single_row]. Year r = year \<and> Category r = ''Work Permits''
                     \<and> Metric r = ''Permanent residency'' \<and> Forecast r = py_round 7"
    and f: "fit [real_of_int 2025] [7] = Inr \<lparr>coef = 0, intercept = 7\<rparr>"
    by blast
  from all have "\<exists>r \<in> set [single_row]. Year r = ly + 1 \<and> Category r = ''Work Permits''
                     \<and> Metric r = ''Permanent residency'' \<and> Forecast r = py_round 7"
    by simp
  with ly f a b c show ?thesis using single_table by blast
qed

text \<open>
  C7: a column with a missing value is skipped without an error of its own, but a run
  in which every requested column is skipped ends with an error: the table without rows
  has no \<^verbatim>\<open>Year\<close> column to sort by.
\<close>

theorem all_columns_missing_raises:
  "generate_forecast_table missing_dfs missing_columns 5 True True = Inl KeyError"
  by (simp add: generate_forecast_table_def last_year_of_def missing_dfs_def
      missing_columns_def column_rows_def df_column_def)

section \<open>The forecast years\<close>




end
